theory Spec2Isabelle
  imports Complex_Main
begin

section \<open>JavaScript numbers\<close>

text \<open>
  The domain module \<^verbatim>\<open>src/domain/vmx-domain.ts\<close> computes with JavaScript numbers.
  A number is modelled as one of the three special values of IEEE 754 or a finite
  value. The special values are modelled exactly as JavaScript treats them
  (\<^verbatim>\<open>Number.isFinite\<close>, comparisons that are false on NaN, \<^verbatim>\<open>Infinity / Infinity = NaN\<close>).
  Arithmetic on finite values is exact: rounding to 53 bits, overflow to an infinity and
  the sign of zero are not modelled.
\<close>

datatype num = Fin real | PInf | NInf | NaN

fun isFinite :: "num \<Rightarrow> bool" where
  "isFinite (Fin _) = True"
| "isFinite _ = False"

text \<open>The relational operators \<^verbatim>\<open><\<close>, \<^verbatim>\<open>>\<close>, \<^verbatim>\<open><=\<close>: each is false when an operand is NaN.\<close>

fun lt :: "num \<Rightarrow> num \<Rightarrow> bool" where
  "lt NaN _ = False"
| "lt _ NaN = False"
| "lt (Fin a) (Fin b) = (a < b)"
| "lt _ NInf = False"
| "lt NInf _ = True"
| "lt PInf _ = False"
| "lt (Fin _) PInf = True"

definition gt :: "num \<Rightarrow> num \<Rightarrow> bool" where
  "gt a b = lt b a"

fun le :: "num \<Rightarrow> num \<Rightarrow> bool" where
  "le NaN _ = False"
| "le _ NaN = False"
| "le a b = (\<not> lt b a)"

fun add :: "num \<Rightarrow> num \<Rightarrow> num" where
  "add NaN _ = NaN"
| "add _ NaN = NaN"
| "add (Fin a) (Fin b) = Fin (a + b)"
| "add PInf NInf = NaN"
| "add NInf PInf = NaN"
| "add PInf _ = PInf"
| "add NInf _ = NInf"
| "add (Fin _) b = b"

fun neg :: "num \<Rightarrow> num" where
  "neg (Fin a) = Fin (- a)"
| "neg PInf = NInf"
| "neg NInf = PInf"
| "neg NaN = NaN"

definition sub :: "num \<Rightarrow> num \<Rightarrow> num" where
  "sub a b = add a (neg b)"

text \<open>The sign of a number: \<open>-1\<close>, \<open>0\<close> or \<open>1\<close> (unused on NaN).\<close>

fun sgn_num :: "num \<Rightarrow> real" where
  "sgn_num (Fin a) = sgn a"
| "sgn_num PInf = 1"
| "sgn_num NInf = - 1"
| "sgn_num NaN = 0"

definition signed_inf :: "real \<Rightarrow> num" where
  "signed_inf s = (if s = 0 then NaN else if 0 < s then PInf else NInf)"

fun mul :: "num \<Rightarrow> num \<Rightarrow> num" where
  "mul NaN _ = NaN"
| "mul _ NaN = NaN"
| "mul (Fin a) (Fin b) = Fin (a * b)"
| "mul a b = signed_inf (sgn_num a * sgn_num b)"

text \<open>
  Division. A finite non-zero value over zero is an infinity (of the sign of the
  dividend, zero being taken as \<open>+0\<close>); a finite value over an infinity is zero.
\<close>

fun divide_num :: "num \<Rightarrow> num \<Rightarrow> num" where
  "divide_num NaN _ = NaN"
| "divide_num _ NaN = NaN"
| "divide_num (Fin a) (Fin b) = (if b = 0 then signed_inf (sgn a) else Fin (a / b))"
| "divide_num (Fin _) _ = Fin 0"
| "divide_num a (Fin b) = signed_inf (sgn_num a * (if b < 0 then - 1 else 1))"
| "divide_num _ _ = NaN"

text \<open>\<^verbatim>\<open>Math.max\<close> and \<^verbatim>\<open>Math.min\<close> of two arguments: NaN if either is NaN.\<close>

fun Math_max :: "num \<Rightarrow> num \<Rightarrow> num" where
  "Math_max NaN _ = NaN"
| "Math_max _ NaN = NaN"
| "Math_max a b = (if lt a b then b else a)"

fun Math_min :: "num \<Rightarrow> num \<Rightarrow> num" where
  "Math_min NaN _ = NaN"
| "Math_min _ NaN = NaN"
| "Math_min a b = (if lt b a then b else a)"

section \<open>The data model\<close>

datatype VmxCategoryId =
  FACILITATING | SUBSTRUCTURE | SUPERSTRUCTURE | INTERNAL_FINISHES | FF_E | SERVICES
  | EXTERNAL_WORKS

datatype HeatBand = LOW | MEDIUM | HIGH

text \<open>\<^verbatim>\<open>RangeStatus\<close>: the statuses \<^verbatim>\<open>"LOW"\<close> and \<^verbatim>\<open>"HIGH"\<close> are \<open>RLOW\<close> and \<open>RHIGH\<close> here.\<close>

datatype RangeStatus = OK | RLOW | RHIGH

record CategoryDef =
  cat_id :: VmxCategoryId
  cat_label :: string
  sortOrder :: nat

definition VMX_CATEGORIES :: "CategoryDef list" where
  "VMX_CATEGORIES =
     [\<lparr>cat_id = FACILITATING, cat_label = ''Site Prep & Infrastructure'', sortOrder = 1\<rparr>,
      \<lparr>cat_id = SUBSTRUCTURE, cat_label = ''Substructure'', sortOrder = 2\<rparr>,
      \<lparr>cat_id = SUPERSTRUCTURE, cat_label = ''Shell'', sortOrder = 3\<rparr>,
      \<lparr>cat_id = INTERNAL_FINISHES, cat_label = ''Interiors'', sortOrder = 4\<rparr>,
      \<lparr>cat_id = FF_E, cat_label = ''Equipment & Furnishings'', sortOrder = 5\<rparr>,
      \<lparr>cat_id = SERVICES, cat_label = ''Services (MEP)'', sortOrder = 6\<rparr>,
      \<lparr>cat_id = EXTERNAL_WORKS, cat_label = ''Exterior Improvements'', sortOrder = 7\<rparr>]"

record BenchmarkBand =
  categoryId :: VmxCategoryId
  band :: HeatBand
  psqft :: num

text \<open>
  Target ranges come from storage and the code guards against malformed ones, so the
  \<^verbatim>\<open>categoryId\<close> of a stored range is any run-time value: \<open>Absent\<close> is a falsy one
  (\<^verbatim>\<open>undefined\<close>, \<^verbatim>\<open>null\<close>, the empty string), \<open>Known c\<close> one of the seven ids, and
  \<open>Unknown s\<close> any other truthy value. A \<^verbatim>\<open>minPct\<close> or \<^verbatim>\<open>maxPct\<close> that is not a number is
  NaN here: \<^verbatim>\<open>Number.isFinite\<close> is false on both and nothing else reads it first.
\<close>

datatype RawId = Absent | Known VmxCategoryId | Unknown string

record TargetRange =
  r_categoryId :: RawId
  minPct :: num
  maxPct :: num

text \<open>
  \<open>targetRanges\<close> is \<open>None\<close> when the field is not an array; an entry is \<open>None\<close> when
  it is \<^verbatim>\<open>null\<close> or \<^verbatim>\<open>undefined\<close>.
\<close>

record BenchmarkSet =
  b_id :: string
  b_name :: string
  b_currency :: string
  bands :: "BenchmarkBand list"
  targetRanges :: "TargetRange option list option"

record ScenarioSelection =
  s_categoryId :: VmxCategoryId
  s_band :: HeatBand
  overridePsqft :: "num option"

record CategoryResult =
  c_categoryId :: VmxCategoryId
  c_label :: string
  c_band :: HeatBand
  psqftUsed :: num
  cost :: num
  pctOfTotal :: num
  targetMinPct :: num
  targetMaxPct :: num
  rangeStatus :: RangeStatus
  isOutOfRange :: bool

record ScenarioResult =
  areaSqft :: num
  currency :: string
  totalCost :: num
  totalPsqft :: num
  categories :: "CategoryResult list"

record TargetRangeDerivationOptions =
  relativeTolerance :: "num option"
  minHalfWidthAbs :: "num option"
  maxHalfWidthAbs :: "num option"

text \<open>The four \<^verbatim>\<open>throw new Error(...)\<close> of the module.\<close>

datatype error =
  InvalidArea
  | MissingSelection VmxCategoryId
  | MissingBand VmxCategoryId HeatBand
  | NonPositiveTotal

section \<open>Numeric safety and classification\<close>

definition clamp :: "num \<Rightarrow> num \<Rightarrow> num \<Rightarrow> num" where
  "clamp n mn mx = (if \<not> isFinite n then mn else Math_min mx (Math_max mn n))"

definition safePct :: "num \<Rightarrow> num" where
  "safePct n = clamp n (Fin 0) (Fin 1)"

text \<open>\<^verbatim>\<open>ensureMinMax\<close> returns the object \<^verbatim>\<open>{ minPct, maxPct }\<close>, here a pair.\<close>

definition ensureMinMax :: "num \<Rightarrow> num \<Rightarrow> num \<times> num" where
  "ensureMinMax mnPct mxPct =
     (let mn = safePct mnPct; mx = safePct mxPct
      in if lt mx mn then (mn, mn) else (mn, mx))"

definition classifyRange :: "num \<Rightarrow> num \<Rightarrow> num \<Rightarrow> RangeStatus" where
  "classifyRange pct mnPct mxPct =
     (if lt pct mnPct then RLOW else if gt pct mxPct then RHIGH else OK)"

section \<open>Implied Medium shares\<close>

definition requireBand :: "BenchmarkSet \<Rightarrow> VmxCategoryId \<Rightarrow> HeatBand \<Rightarrow> error + BenchmarkBand" where
  "requireBand benchmark cid bd =
     (case find (\<lambda>b. categoryId b = cid \<and> band b = bd) (bands benchmark) of
        None \<Rightarrow> Inl (MissingBand cid bd)
      | Some found \<Rightarrow> Inr found)"

text \<open>
  The expression \<^verbatim>\<open>x && Number.isFinite(x.psqft) ? Math.max(0, x.psqft) : null\<close>, which
  \<^verbatim>\<open>getMediumPsqftOrFallback\<close> applies to the entry found for each band.
\<close>

definition usablePsqft :: "BenchmarkBand option \<Rightarrow> num option" where
  "usablePsqft x =
     (case x of
        None \<Rightarrow> None
      | Some b \<Rightarrow> if isFinite (psqft b) then Some (Math_max (Fin 0) (psqft b)) else None)"

definition getMediumPsqftOrFallback :: "BenchmarkSet \<Rightarrow> VmxCategoryId \<Rightarrow> num" where
  "getMediumPsqftOrFallback benchmark cid =
     (let med = find (\<lambda>b. categoryId b = cid \<and> band b = MEDIUM) (bands benchmark) in
      case usablePsqft med of
        Some v \<Rightarrow> v
      | None \<Rightarrow>
         (let low = find (\<lambda>b. categoryId b = cid \<and> band b = LOW) (bands benchmark);
              high = find (\<lambda>b. categoryId b = cid \<and> band b = HIGH) (bands benchmark);
              lowV = usablePsqft low;
              highV = usablePsqft high
          in case lowV of
               Some l \<Rightarrow> (case highV of Some h \<Rightarrow> divide_num (add l h) (Fin 2) | None \<Rightarrow> l)
             | None \<Rightarrow> (case highV of Some h \<Rightarrow> h | None \<Rightarrow> Fin 0)))"

text \<open>
  Reading a property of a \<^verbatim>\<open>Record\<close> that was never written gives \<^verbatim>\<open>undefined\<close>, which
  arithmetic turns into NaN.
\<close>

definition getProp :: "('k \<rightharpoonup> num) \<Rightarrow> 'k \<Rightarrow> num" where
  "getProp m k = (case m k of Some v \<Rightarrow> v | None \<Rightarrow> NaN)"

definition computeImpliedMediumAllocationShares :: "BenchmarkSet \<Rightarrow> (VmxCategoryId \<rightharpoonup> num)" where
  "computeImpliedMediumAllocationShares benchmark =
     (let (psqftByCat, sm) =
            foldl (\<lambda>(m, s) cat.
                     let v = getMediumPsqftOrFallback benchmark (cat_id cat)
                     in (m(cat_id cat \<mapsto> v), add s v))
                  (Map.empty, Fin 0) VMX_CATEGORIES
      in if \<not> isFinite sm \<or> le sm (Fin 0)
         then (let eq = divide_num (Fin 1) (Fin (real (length VMX_CATEGORIES)))
               in foldl (\<lambda>out cat. out(cat_id cat \<mapsto> eq)) Map.empty VMX_CATEGORIES)
         else foldl (\<lambda>out cat. out(cat_id cat \<mapsto> divide_num (getProp psqftByCat (cat_id cat)) sm))
                Map.empty VMX_CATEGORIES)"

section \<open>Target ranges\<close>

text \<open>The operator \<^verbatim>\<open>??\<close>: the right operand when the left is \<^verbatim>\<open>null\<close> or \<^verbatim>\<open>undefined\<close>.\<close>

definition nullish :: "'a option \<Rightarrow> 'a \<Rightarrow> 'a" where
  "nullish x d = (case x of Some v \<Rightarrow> v | None \<Rightarrow> d)"

definition deriveTargetRangesFromMedium ::
    "BenchmarkSet \<Rightarrow> TargetRangeDerivationOptions option \<Rightarrow> TargetRange list" where
  "deriveTargetRangesFromMedium benchmark opts =
     (let relTol = clamp (nullish (Option.bind opts relativeTolerance) (Fin (2 / 10))) (Fin 0) (Fin 2);
          minHalf = clamp (nullish (Option.bind opts minHalfWidthAbs) (Fin (1 / 100))) (Fin 0) (Fin (5 / 10));
          maxHalf = clamp (nullish (Option.bind opts maxHalfWidthAbs) (Fin (6 / 100))) (Fin 0) (Fin (5 / 10));
          shares = computeImpliedMediumAllocationShares benchmark
      in map (\<lambda>cat.
                let center = safePct (getProp shares (cat_id cat));
                    halfRel = mul center relTol;
                    half = clamp (Math_max minHalf halfRel) (Fin 0) maxHalf;
                    fixed = ensureMinMax (sub center half) (add center half)
                in \<lparr>r_categoryId = Known (cat_id cat), minPct = fst fixed, maxPct = snd fixed\<rparr>)
             VMX_CATEGORIES)"

text \<open>
  The loop of \<^verbatim>\<open>ensureCompleteTargetRanges\<close> over the existing ranges: one step on the
  \<^verbatim>\<open>Map\<close> \<open>byCat\<close>. A later entry for the same id replaces an earlier one.
\<close>

definition setExisting :: "(RawId \<rightharpoonup> TargetRange) \<Rightarrow> TargetRange option \<Rightarrow> (RawId \<rightharpoonup> TargetRange)" where
  "setExisting byCat r0 =
     (case r0 of
        None \<Rightarrow> byCat
      | Some r \<Rightarrow>
          if r_categoryId r = Absent then byCat
          else (let fixed = ensureMinMax (minPct r) (maxPct r)
                in byCat(r_categoryId r \<mapsto>
                     \<lparr>r_categoryId = r_categoryId r, minPct = fst fixed, maxPct = snd fixed\<rparr>)))"

definition ensureCompleteTargetRanges :: "BenchmarkSet \<Rightarrow> TargetRange list" where
  "ensureCompleteTargetRanges benchmark =
     (let existing = (case targetRanges benchmark of Some rs \<Rightarrow> rs | None \<Rightarrow> []);
          byCat = foldl setExisting Map.empty existing;
          derived = deriveTargetRangesFromMedium benchmark None
      in map (\<lambda>cat.
                case byCat (Known (cat_id cat)) of
                  Some existingRange \<Rightarrow> existingRange
                | None \<Rightarrow>
                   (case find (\<lambda>x. r_categoryId x = Known (cat_id cat)) derived of
                      Some d \<Rightarrow> d
                    | None \<Rightarrow> \<lparr>r_categoryId = Known (cat_id cat), minPct = Fin 0, maxPct = Fin 1\<rparr>))
             VMX_CATEGORIES)"

definition getTargetRangeForCategory :: "BenchmarkSet \<Rightarrow> VmxCategoryId \<Rightarrow> TargetRange" where
  "getTargetRangeForCategory benchmark cid =
     (case find (\<lambda>r. r_categoryId r = Known cid) (ensureCompleteTargetRanges benchmark) of
        Some found \<Rightarrow> found
      | None \<Rightarrow> \<lparr>r_categoryId = Known cid, minPct = Fin 0, maxPct = Fin 1\<rparr>)"

section \<open>Scenario computation\<close>

text \<open>\<^verbatim>\<open>Array.prototype.map\<close> with a callback that may throw: the first throw ends the map.\<close>

fun mapThrowing :: "('a \<Rightarrow> error + 'b) \<Rightarrow> 'a list \<Rightarrow> error + 'b list" where
  "mapThrowing f [] = Inr []"
| "mapThrowing f (x # xs) =
     (case f x of
        Inl e \<Rightarrow> Inl e
      | Inr y \<Rightarrow> (case mapThrowing f xs of Inl e \<Rightarrow> Inl e | Inr ys \<Rightarrow> Inr (y # ys)))"

record InterimRow =
  i_categoryId :: VmxCategoryId
  i_label :: string
  i_band :: HeatBand
  i_psqftUsed :: num
  i_cost :: num
  i_range :: TargetRange

definition selectionByCat :: "ScenarioSelection list \<Rightarrow> (VmxCategoryId \<rightharpoonup> ScenarioSelection)" where
  "selectionByCat selections = foldl (\<lambda>m sel. m(s_categoryId sel \<mapsto> sel)) Map.empty selections"

text \<open>The callback of the first \<^verbatim>\<open>VMX_CATEGORIES.map\<close> in \<^verbatim>\<open>computeScenarioResult\<close>.\<close>

definition interimRow ::
    "num \<Rightarrow> BenchmarkSet \<Rightarrow> (VmxCategoryId \<rightharpoonup> ScenarioSelection) \<Rightarrow> TargetRange list
       \<Rightarrow> CategoryDef \<Rightarrow> error + InterimRow" where
  "interimRow area benchmark selByCat safeTargetRanges cat =
     (case selByCat (cat_id cat) of
        None \<Rightarrow> Inl (MissingSelection (cat_id cat))
      | Some sel \<Rightarrow>
         (case requireBand benchmark (cat_id cat) (s_band sel) of
            Inl e \<Rightarrow> Inl e
          | Inr base \<Rightarrow>
             (let used = nullish (overridePsqft sel) (psqft base);
                  cst = mul area used;
                  range = (case find (\<lambda>r. r_categoryId r = Known (cat_id cat)) safeTargetRanges of
                             Some r \<Rightarrow> r
                           | None \<Rightarrow> getTargetRangeForCategory benchmark (cat_id cat))
              in Inr \<lparr>i_categoryId = cat_id cat, i_label = cat_label cat, i_band = s_band sel,
                       i_psqftUsed = used, i_cost = cst, i_range = range\<rparr>)))"

definition interim :: "num \<Rightarrow> BenchmarkSet \<Rightarrow> ScenarioSelection list \<Rightarrow> error + InterimRow list" where
  "interim area benchmark selections =
     mapThrowing
       (interimRow area benchmark (selectionByCat selections) (ensureCompleteTargetRanges benchmark))
       VMX_CATEGORIES"

text \<open>The callback of the second map: one \<^verbatim>\<open>CategoryResult\<close> from an interim row.\<close>

definition categoryResult :: "num \<Rightarrow> InterimRow \<Rightarrow> CategoryResult" where
  "categoryResult totalCst r =
     (let pct = divide_num (i_cost r) totalCst;
          fixed = ensureMinMax (minPct (i_range r)) (maxPct (i_range r));
          status = classifyRange pct (fst fixed) (snd fixed)
      in \<lparr>c_categoryId = i_categoryId r, c_label = i_label r, c_band = i_band r,
           psqftUsed = i_psqftUsed r, cost = i_cost r, pctOfTotal = pct,
           targetMinPct = fst fixed, targetMaxPct = snd fixed,
           rangeStatus = status, isOutOfRange = (status \<noteq> OK)\<rparr>)"

definition computeScenarioResult ::
    "num \<Rightarrow> BenchmarkSet \<Rightarrow> ScenarioSelection list \<Rightarrow> error + ScenarioResult" where
  "computeScenarioResult area benchmark selections =
     (if \<not> isFinite area \<or> le area (Fin 0) then Inl InvalidArea
      else case interim area benchmark selections of
             Inl e \<Rightarrow> Inl e
           | Inr rows \<Rightarrow>
              (let totalCst = foldl (\<lambda>acc r. add acc (i_cost r)) (Fin 0) rows
               in if le totalCst (Fin 0) then Inl NonPositiveTotal
                  else Inr \<lparr>areaSqft = area, currency = b_currency benchmark, totalCost = totalCst,
                            totalPsqft = divide_num totalCst area,
                            categories = map (categoryResult totalCst) rows\<rparr>))"

section \<open>Notions used by the statements\<close>

text \<open>The sum of a list of numbers, added from the left starting at zero.\<close>

definition sumNums :: "num list \<Rightarrow> num" where
  "sumNums xs = foldl add (Fin 0) xs"

text \<open>The sums of the \<open>cost\<close> and of the \<open>pctOfTotal\<close> fields of a result's categories.\<close>

definition costSum :: "ScenarioResult \<Rightarrow> num" where
  "costSum res = sumNums (map cost (categories res))"

definition pctSum :: "ScenarioResult \<Rightarrow> num" where
  "pctSum res = sumNums (map pctOfTotal (categories res))"





text \<open>
  What the code takes instead, as real numbers: the first entry of the benchmark for a
  category and band, and, when that entry's unit cost is finite, that cost raised to 0
  if it is negative.
\<close>

definition bandEntry :: "BenchmarkSet \<Rightarrow> VmxCategoryId \<Rightarrow> HeatBand \<Rightarrow> BenchmarkBand option" where
  "bandEntry bm c bd = find (\<lambda>b. categoryId b = c \<and> band b = bd) (bands bm)"

definition flooredCost :: "BenchmarkSet \<Rightarrow> VmxCategoryId \<Rightarrow> HeatBand \<Rightarrow> real option" where
  "flooredCost bm c bd =
     (case bandEntry bm c bd of
        None \<Rightarrow> None
      | Some b \<Rightarrow> (case psqft b of Fin a \<Rightarrow> Some (max 0 a) | _ \<Rightarrow> None))"

definition representativeCost :: "BenchmarkSet \<Rightarrow> VmxCategoryId \<Rightarrow> real" where
  "representativeCost bm c =
     (case flooredCost bm c MEDIUM of
        Some m \<Rightarrow> m
      | None \<Rightarrow>
         (case flooredCost bm c LOW of
            Some l \<Rightarrow> (case flooredCost bm c HIGH of Some h \<Rightarrow> (l + h) / 2 | None \<Rightarrow> l)
          | None \<Rightarrow> (case flooredCost bm c HIGH of Some h \<Rightarrow> h | None \<Rightarrow> 0)))"

text \<open>A range with \<open>0 \<le> minPct \<le> maxPct \<le> 1\<close>, in the comparisons of the language.\<close>

definition validRange :: "TargetRange \<Rightarrow> bool" where
  "validRange r \<longleftrightarrow> le (Fin 0) (minPct r) \<and> le (minPct r) (maxPct r) \<and> le (maxPct r) (Fin 1)"

section \<open>Example inputs\<close>

text \<open>The three bands of one category, in the order of \<^verbatim>\<open>src/data/demo-benchmark.ts\<close>.\<close>

definition threeBands :: "VmxCategoryId \<Rightarrow> num \<Rightarrow> num \<Rightarrow> num \<Rightarrow> BenchmarkBand list" where
  "threeBands c l m h =
     [\<lparr>categoryId = c, band = LOW, psqft = l\<rparr>,
      \<lparr>categoryId = c, band = MEDIUM, psqft = m\<rparr>,
      \<lparr>categoryId = c, band = HIGH, psqft = h\<rparr>]"

text \<open>\<^verbatim>\<open>demoBenchmark\<close> of \<^verbatim>\<open>src/data/demo-benchmark.ts\<close>.\<close>

definition demoBenchmark :: BenchmarkSet where
  "demoBenchmark =
     \<lparr>b_id = ''demo-us-reserve'', b_name = ''US - Demo - Reserve'', b_currency = ''USD'',
      bands =
        threeBands FACILITATING (Fin 3) (Fin 51) (Fin 106)
        @ threeBands SUBSTRUCTURE (Fin 63) (Fin 256) (Fin 390)
        @ threeBands SUPERSTRUCTURE (Fin 280) (Fin 520) (Fin 780)
        @ threeBands INTERNAL_FINISHES (Fin 220) (Fin 460) (Fin 720)
        @ threeBands FF_E (Fin 120) (Fin 260) (Fin 420)
        @ threeBands SERVICES (Fin 140) (Fin 280) (Fin 440)
        @ threeBands EXTERNAL_WORKS (Fin 90) (Fin 180) (Fin 300),
      targetRanges = Some
        [Some \<lparr>r_categoryId = Known FACILITATING, minPct = Fin (5 / 100), maxPct = Fin (10 / 100)\<rparr>,
         Some \<lparr>r_categoryId = Known SUBSTRUCTURE, minPct = Fin (15 / 100), maxPct = Fin (20 / 100)\<rparr>,
         Some \<lparr>r_categoryId = Known SUPERSTRUCTURE, minPct = Fin (25 / 100), maxPct = Fin (30 / 100)\<rparr>,
         Some \<lparr>r_categoryId = Known INTERNAL_FINISHES, minPct = Fin (20 / 100), maxPct = Fin (25 / 100)\<rparr>,
         Some \<lparr>r_categoryId = Known FF_E, minPct = Fin (10 / 100), maxPct = Fin (15 / 100)\<rparr>,
         Some \<lparr>r_categoryId = Known SERVICES, minPct = Fin (10 / 100), maxPct = Fin (15 / 100)\<rparr>,
         Some \<lparr>r_categoryId = Known EXTERNAL_WORKS, minPct = Fin (5 / 100), maxPct = Fin (10 / 100)\<rparr>]\<rparr>"

text \<open>Every category at the Medium band, without an override.\<close>

definition mediumSelections :: "ScenarioSelection list" where
  "mediumSelections =
     map (\<lambda>cat. \<lparr>s_categoryId = cat_id cat, s_band = MEDIUM, overridePsqft = None\<rparr>) VMX_CATEGORIES"

text \<open>The same selections, the first category overridden with the unit cost \<open>v\<close>.\<close>

definition overriddenSelections :: "num \<Rightarrow> ScenarioSelection list" where
  "overriddenSelections v =
     \<lparr>s_categoryId = FACILITATING, s_band = MEDIUM, overridePsqft = Some v\<rparr> # tl mediumSelections"

text \<open>A benchmark with all 21 bands, every unit cost zero, and no target ranges.\<close>

definition zeroBenchmark :: BenchmarkSet where
  "zeroBenchmark =
     \<lparr>b_id = ''zero'', b_name = ''Zero'', b_currency = ''USD'',
      bands = concat (map (\<lambda>cat. threeBands (cat_id cat) (Fin 0) (Fin 0) (Fin 0)) VMX_CATEGORIES),
      targetRanges = None\<rparr>"

text \<open>The demo benchmark without the entry (FACILITATING, MEDIUM).\<close>

definition gapBenchmark :: BenchmarkSet where
  "gapBenchmark =
     demoBenchmark\<lparr>bands :=
       filter (\<lambda>b. \<not> (categoryId b = FACILITATING \<and> band b = MEDIUM)) (bands demoBenchmark)\<rparr>"

text \<open>
  A benchmark as storage may hand it over: a null entry, an entry without an id, one with
  an id outside the seven, an inverted range, a range outside \<open>[0, 1]\<close>, one that is not
  numeric, and two entries for one category.
\<close>

definition malformedBenchmark :: BenchmarkSet where
  "malformedBenchmark =
     demoBenchmark\<lparr>targetRanges := Some
       [None,
        Some \<lparr>r_categoryId = Absent, minPct = Fin (1 / 10), maxPct = Fin (2 / 10)\<rparr>,
        Some \<lparr>r_categoryId = Unknown ''ROOF'', minPct = Fin (1 / 10), maxPct = Fin (2 / 10)\<rparr>,
        Some \<lparr>r_categoryId = Known SERVICES, minPct = Fin (9 / 10), maxPct = Fin (2 / 10)\<rparr>,
        Some \<lparr>r_categoryId = Known FF_E, minPct = Fin (- 3), maxPct = Fin 7\<rparr>,
        Some \<lparr>r_categoryId = Known SUBSTRUCTURE, minPct = NaN, maxPct = PInf\<rparr>,
        Some \<lparr>r_categoryId = Known SUPERSTRUCTURE, minPct = Fin (1 / 10), maxPct = Fin (2 / 10)\<rparr>,
        Some \<lparr>r_categoryId = Known SUPERSTRUCTURE, minPct = Fin (3 / 10), maxPct = Fin (4 / 10)\<rparr>]\<rparr>"

text \<open>A benchmark whose only entry is a negative Medium unit cost.\<close>

definition negativeMediumBenchmark :: BenchmarkSet where
  "negativeMediumBenchmark =
     \<lparr>b_id = ''neg'', b_name = ''Negative'', b_currency = ''USD'',
      bands = [\<lparr>categoryId = FACILITATING, band = MEDIUM, psqft = Fin (- 5)\<rparr>],
      targetRanges = None\<rparr>"


section \<open>Properties\<close>


lemma safePct_cases:
  "safePct n = (case n of Fin a \<Rightarrow> Fin (min 1 (max 0 a)) | _ \<Rightarrow> Fin 0)"
  by (cases n) (auto simp: safePct_def clamp_def)

lemma safePct_range:
  obtains a where "safePct n = Fin a" "0 \<le> a" "a \<le> 1"
  by (cases n) (auto simp: safePct_cases)

lemma safePct_fixed: "0 \<le> a \<Longrightarrow> a \<le> 1 \<Longrightarrow> safePct (Fin a) = Fin a"
  by (simp add: safePct_cases)

lemma le_Fin [simp]: "le (Fin a) (Fin b) = (a \<le> b)"
  by auto

lemma Math_max_Fin [simp]: "Math_max (Fin a) (Fin b) = Fin (max a b)"
  by auto

lemma Math_min_Fin [simp]: "Math_min (Fin a) (Fin b) = Fin (min a b)"
  by auto

subsection \<open>Classification\<close>

text \<open>
  Claim C3. \<^verbatim>\<open>classifyRange\<close> is a three-way comparison against a closed interval: for
  \<open>minPct \<le> maxPct\<close> both bounds classify as OK, every \<open>pct\<close> strictly below \<open>minPct\<close>
  is LOW, every \<open>pct\<close> strictly above \<open>maxPct\<close> is HIGH, and every other \<open>pct\<close> is OK.
\<close>

theorem classifyRange_closed_interval:
  "le mn mx \<Longrightarrow>
     classifyRange mn mn mx = OK \<and> classifyRange mx mn mx = OK
     \<and> (lt pct mn \<longrightarrow> classifyRange pct mn mx = RLOW)
     \<and> (gt pct mx \<longrightarrow> classifyRange pct mn mx = RHIGH)
     \<and> (\<not> lt pct mn \<and> \<not> gt pct mx \<longrightarrow> classifyRange pct mn mx = OK)"
  by (cases mn; cases mx; cases pct) (auto simp: classifyRange_def gt_def)

theorem classifyRange_closed_interval_witness:
  "le (Fin (1 / 4)) (Fin (3 / 10))
   \<and> classifyRange (Fin (1 / 4)) (Fin (1 / 4)) (Fin (3 / 10)) = OK
   \<and> classifyRange (Fin (3 / 10)) (Fin (1 / 4)) (Fin (3 / 10)) = OK
   \<and> lt (Fin (1 / 5)) (Fin (1 / 4))
   \<and> classifyRange (Fin (1 / 5)) (Fin (1 / 4)) (Fin (3 / 10)) = RLOW
   \<and> gt (Fin (1 / 2)) (Fin (3 / 10))
   \<and> classifyRange (Fin (1 / 2)) (Fin (1 / 4)) (Fin (3 / 10)) = RHIGH
   \<and> \<not> lt NaN (Fin (1 / 4)) \<and> \<not> gt NaN (Fin (3 / 10))
   \<and> classifyRange NaN (Fin (1 / 4)) (Fin (3 / 10)) = OK"
  using classifyRange_closed_interval [of "Fin (1 / 4)" "Fin (3 / 10)" "Fin (1 / 5)"]
    classifyRange_closed_interval [of "Fin (1 / 4)" "Fin (3 / 10)" "Fin (1 / 2)"]
    classifyRange_closed_interval [of "Fin (1 / 4)" "Fin (3 / 10)" NaN]
  by (simp add: gt_def)

subsection \<open>Range normalisation\<close>

lemma ensureMinMax_normalised:
  "le (Fin 0) mn \<Longrightarrow> le mn mx \<Longrightarrow> le mx (Fin 1) \<Longrightarrow> ensureMinMax mn mx = (mn, mx)"
  by (cases mn; cases mx) (auto simp: ensureMinMax_def safePct_cases Let_def)

lemma ensureMinMax_result:
  obtains a b where "ensureMinMax x y = (Fin a, Fin b)" "0 \<le> a" "a \<le> b" "b \<le> 1"
proof -
  obtain a where a: "safePct x = Fin a" "0 \<le> a" "a \<le> 1" by (rule safePct_range)
  obtain b where b: "safePct y = Fin b" "0 \<le> b" "b \<le> 1" by (rule safePct_range)
  show thesis
  proof (cases "b < a")
    case True
    with a b have "ensureMinMax x y = (Fin a, Fin a)" by (simp add: ensureMinMax_def Let_def)
    with a that show thesis by blast
  next
    case False
    with a b have "ensureMinMax x y = (Fin a, Fin b)" by (simp add: ensureMinMax_def Let_def)
    with a b False that show thesis by force
  qed
qed

text \<open>
  Claim C9. Normalisation is idempotent: a pair with \<open>0 \<le> minPct \<le> maxPct \<le> 1\<close> is
  returned unchanged by \<^verbatim>\<open>ensureMinMax\<close>, and normalising the result of a normalisation
  of any input gives that result again.
\<close>

theorem ensureMinMax_idempotent:
  "(le (Fin 0) mn \<and> le mn mx \<and> le mx (Fin 1) \<longrightarrow> ensureMinMax mn mx = (mn, mx))
   \<and> ensureMinMax (fst (ensureMinMax x y)) (snd (ensureMinMax x y)) = ensureMinMax x y"
proof -
  obtain a b where ab: "ensureMinMax x y = (Fin a, Fin b)" "0 \<le> a" "a \<le> b" "b \<le> 1"
    by (rule ensureMinMax_result)
  then have "ensureMinMax (Fin a) (Fin b) = (Fin a, Fin b)"
    by (intro ensureMinMax_normalised) simp_all
  with ab show ?thesis by (simp add: ensureMinMax_normalised)
qed

theorem ensureMinMax_idempotent_witness:
  "le (Fin 0) (Fin (1 / 4)) \<and> le (Fin (1 / 4)) (Fin (3 / 10)) \<and> le (Fin (3 / 10)) (Fin 1)
   \<and> ensureMinMax (Fin (1 / 4)) (Fin (3 / 10)) = (Fin (1 / 4), Fin (3 / 10))
   \<and> ensureMinMax (Fin (7 / 10)) (Fin (- 2)) = (Fin (7 / 10), Fin (7 / 10))
   \<and> ensureMinMax (Fin (7 / 10)) (Fin (7 / 10)) = (Fin (7 / 10), Fin (7 / 10))"
  using ensureMinMax_idempotent [of "Fin (1 / 4)" "Fin (3 / 10)" "Fin (7 / 10)" "Fin (- 2)"]
  by (simp add: ensureMinMax_def safePct_cases Let_def)

subsection \<open>Scenario computation: structure of a run\<close>

lemma mapThrowing_Inr:
  "mapThrowing f xs = Inr ys \<Longrightarrow> list_all2 (\<lambda>x y. f x = Inr y) xs ys"
  by (induction xs arbitrary: ys) (auto split: sum.splits)

lemma mapThrowing_Inl:
  "mapThrowing f xs = Inl e \<Longrightarrow> \<exists>x\<in>set xs. f x = Inl e"
  by (induction xs) (auto split: sum.splits)

lemma mapThrowing_total:
  "(\<And>x. x \<in> set xs \<Longrightarrow> \<exists>y. f x = Inr y) \<Longrightarrow> \<exists>ys. mapThrowing f xs = Inr ys"
proof (induction xs)
  case Nil
  then show ?case by simp
next
  case (Cons x xs)
  then obtain y where "f x = Inr y" by force
  moreover from Cons obtain ys where "mapThrowing f xs = Inr ys" by force
  ultimately show ?case by simp
qed

lemma mapThrowing_only_error:
  "\<exists>x\<in>set xs. P x \<Longrightarrow> (\<And>x. x \<in> set xs \<Longrightarrow> P x \<Longrightarrow> f x = Inl e)
     \<Longrightarrow> (\<And>x. x \<in> set xs \<Longrightarrow> \<not> P x \<Longrightarrow> \<exists>y. f x = Inr y)
     \<Longrightarrow> mapThrowing f xs = Inl e"
proof (induction xs)
  case Nil
  then show ?case by simp
next
  case (Cons x xs)
  show ?case
  proof (cases "P x")
    case True
    with Cons.prems(2) have "f x = Inl e" by simp
    then show ?thesis by simp
  next
    case False
    with Cons.prems(3) obtain y where y: "f x = Inr y" by force
    from False Cons.prems(1) have "\<exists>x\<in>set xs. P x" by auto
    with Cons.IH Cons.prems(2,3) have "mapThrowing f xs = Inl e" by simp
    with y show ?thesis by simp
  qed
qed

lemma list_all2_right:
  "list_all2 P xs ys \<Longrightarrow> y \<in> set ys \<Longrightarrow> \<exists>x\<in>set xs. P x y"
  by (induction rule: list_all2_induct) auto

lemma list_all2_left:
  "list_all2 P xs ys \<Longrightarrow> x \<in> set xs \<Longrightarrow> \<exists>y\<in>set ys. P x y"
  by (induction rule: list_all2_induct) auto

lemma list_all2_map_eq:
  "list_all2 P xs ys \<Longrightarrow> (\<And>x y. P x y \<Longrightarrow> f x = g y) \<Longrightarrow> map g ys = map f xs"
  by (induction rule: list_all2_induct) auto

lemma category_listed: "\<exists>cat\<in>set VMX_CATEGORIES. cat_id cat = c"
  by (cases c) (simp_all add: VMX_CATEGORIES_def)

lemma interimRow_Inr:
  assumes "interimRow area bm selBy rs cat = Inr row"
  obtains sel base where "selBy (cat_id cat) = Some sel"
    "requireBand bm (cat_id cat) (s_band sel) = Inr base"
    "i_categoryId row = cat_id cat" "i_band row = s_band sel"
    "i_psqftUsed row = nullish (overridePsqft sel) (psqft base)"
    "i_cost row = mul area (i_psqftUsed row)"
  using assms
  by (auto simp: interimRow_def Let_def split: option.splits sum.splits)

lemma interimRow_Inl:
  "interimRow area bm selBy rs cat = Inl e \<longleftrightarrow>
     (case selBy (cat_id cat) of
        None \<Rightarrow> e = MissingSelection (cat_id cat)
      | Some sel \<Rightarrow> requireBand bm (cat_id cat) (s_band sel) = Inl e)"
  by (auto simp: interimRow_def Let_def split: option.splits sum.splits)

lemma requireBand_Inl:
  "requireBand bm c bd = Inl e \<longleftrightarrow>
     e = MissingBand c bd \<and> \<not> (\<exists>b\<in>set (bands bm). categoryId b = c \<and> band b = bd)"
proof (cases "find (\<lambda>b. categoryId b = c \<and> band b = bd) (bands bm)")
  case None
  then have "\<not> (\<exists>b\<in>set (bands bm). categoryId b = c \<and> band b = bd)"
    by (auto simp: find_None_iff)
  with None show ?thesis by (auto simp: requireBand_def)
next
  case (Some b)
  then have "b \<in> set (bands bm) \<and> categoryId b = c \<and> band b = bd"
    by (auto simp: find_Some_iff)
  with Some show ?thesis by (auto simp: requireBand_def)
qed

lemma requireBand_Inr:
  "requireBand bm c bd = Inr b \<Longrightarrow> b \<in> set (bands bm) \<and> categoryId b = c \<and> band b = bd"
  by (auto simp: requireBand_def find_Some_iff split: option.splits)

lemma interimRow_not_InvalidArea:
  "interimRow area bm sel rs cat \<noteq> Inl InvalidArea"
  by (auto simp: interimRow_Inl requireBand_Inl split: option.splits)

lemma interim_not_InvalidArea: "interim area bm sels \<noteq> Inl InvalidArea"
proof
  assume "interim area bm sels = Inl InvalidArea"
  then obtain cat where
    "interimRow area bm (selectionByCat sels) (ensureCompleteTargetRanges bm) cat = Inl InvalidArea"
    unfolding interim_def by (blast dest: mapThrowing_Inl)
  then show False by (simp add: interimRow_not_InvalidArea)
qed

lemma interim_rows:
  assumes "interim area bm sels = Inr rows" and "row \<in> set rows"
  obtains cat where "cat \<in> set VMX_CATEGORIES"
    "interimRow area bm (selectionByCat sels) (ensureCompleteTargetRanges bm) cat = Inr row"
  using assms unfolding interim_def
  by (blast dest: mapThrowing_Inr list_all2_right)

lemma interim_categoryIds:
  assumes "interim area bm sels = Inr rows"
  shows "map i_categoryId rows = map cat_id VMX_CATEGORIES"
proof -
  from assms have
    "list_all2 (\<lambda>cat row. interimRow area bm (selectionByCat sels) (ensureCompleteTargetRanges bm) cat = Inr row)
       VMX_CATEGORIES rows"
    unfolding interim_def by (rule mapThrowing_Inr)
  then show ?thesis
    by (rule list_all2_map_eq) (erule interimRow_Inr, simp)
qed

lemma total_foldl: "foldl (\<lambda>acc r. add acc (i_cost r)) z rows = foldl add z (map i_cost rows)"
  by (simp add: foldl_map)

lemma computeScenarioResult_Inr:
  assumes "computeScenarioResult area bm sels = Inr res"
  obtains a rows where "area = Fin a" "0 < a" "interim area bm sels = Inr rows"
    "totalCost res = sumNums (map i_cost rows)" "\<not> le (totalCost res) (Fin 0)"
    "categories res = map (categoryResult (totalCost res)) rows"
proof -
  from assms obtain a where a: "area = Fin a" "0 < a"
    by (cases area) (auto simp: computeScenarioResult_def split: if_splits)
  with assms obtain rows where rows: "interim area bm sels = Inr rows"
    by (auto simp: computeScenarioResult_def split: sum.splits)
  with a assms have "res = \<lparr>areaSqft = area, currency = b_currency bm,
       totalCost = sumNums (map i_cost rows),
       totalPsqft = divide_num (sumNums (map i_cost rows)) area,
       categories = map (categoryResult (sumNums (map i_cost rows))) rows\<rparr>"
     and "\<not> le (sumNums (map i_cost rows)) (Fin 0)"
    by (auto simp: computeScenarioResult_def Let_def total_foldl sumNums_def split: if_splits)
  with a rows that show thesis by simp
qed

text \<open>
  Claim C4. \<^verbatim>\<open>computeScenarioResult\<close> fails with the invalid-area error exactly when
  \<open>areaSqft\<close> is not a finite positive number; with \<open>areaSqft = 0\<close> it fails with that error,
  and with a finite positive area the error it may raise is never this one.
\<close>

theorem invalid_area_iff:
  "(computeScenarioResult area bm sels = Inl InvalidArea \<longleftrightarrow> \<not> (isFinite area \<and> gt area (Fin 0)))
   \<and> computeScenarioResult (Fin 0) bm sels = Inl InvalidArea"
proof -
  have "computeScenarioResult area bm sels = Inl InvalidArea" if "\<not> (isFinite area \<and> gt area (Fin 0))"
    using that by (cases area) (auto simp: computeScenarioResult_def gt_def)
  moreover have "computeScenarioResult area bm sels \<noteq> Inl InvalidArea" if "isFinite area \<and> gt area (Fin 0)"
    using that interim_not_InvalidArea [of area bm sels]
    by (cases area) (auto simp: computeScenarioResult_def gt_def Let_def split: sum.splits)
  moreover have "computeScenarioResult (Fin 0) bm sels = Inl InvalidArea"
    by (simp add: computeScenarioResult_def)
  ultimately show ?thesis by blast
qed

theorem invalid_area_iff_witness:
  "computeScenarioResult NaN demoBenchmark mediumSelections = Inl InvalidArea
   \<and> computeScenarioResult PInf demoBenchmark mediumSelections = Inl InvalidArea
   \<and> computeScenarioResult (Fin (- 5)) demoBenchmark mediumSelections = Inl InvalidArea
   \<and> computeScenarioResult (Fin 0) demoBenchmark mediumSelections = Inl InvalidArea
   \<and> isFinite (Fin 10000) \<and> gt (Fin 10000) (Fin 0)
   \<and> computeScenarioResult (Fin 10000) demoBenchmark mediumSelections \<noteq> Inl InvalidArea"
  using invalid_area_iff [of NaN demoBenchmark mediumSelections]
    invalid_area_iff [of PInf demoBenchmark mediumSelections]
    invalid_area_iff [of "Fin (- 5)" demoBenchmark mediumSelections]
    invalid_area_iff [of "Fin 10000" demoBenchmark mediumSelections]
  by (simp add: gt_def)

lemma category_result:
  assumes "computeScenarioResult area bm sels = Inr res" and "cr \<in> set (categories res)"
  obtains a sel base where "area = Fin a" "0 < a"
    "selectionByCat sels (c_categoryId cr) = Some sel"
    "requireBand bm (c_categoryId cr) (s_band sel) = Inr base"
    "psqftUsed cr = nullish (overridePsqft sel) (psqft base)"
    "cost cr = mul area (psqftUsed cr)"
    "pctOfTotal cr = divide_num (cost cr) (totalCost res)"
proof -
  from assms(1) obtain a rows where a: "area = Fin a" "0 < a"
    and rows: "interim area bm sels = Inr rows"
    and cats: "categories res = map (categoryResult (totalCost res)) rows"
    by (rule computeScenarioResult_Inr)
  from assms(2) cats obtain row where row: "row \<in> set rows" "cr = categoryResult (totalCost res) row"
    by auto
  from rows row(1) obtain cat where
    "interimRow area bm (selectionByCat sels) (ensureCompleteTargetRanges bm) cat = Inr row"
    by (rule interim_rows)
  then obtain sel base where "selectionByCat sels (cat_id cat) = Some sel"
    "requireBand bm (cat_id cat) (s_band sel) = Inr base"
    "i_categoryId row = cat_id cat"
    "i_psqftUsed row = nullish (overridePsqft sel) (psqft base)"
    "i_cost row = mul area (i_psqftUsed row)"
    by (rule interimRow_Inr)
  with row(2) a that show thesis
    by (simp add: categoryResult_def Let_def)
qed

lemma result_categoryIds:
  assumes "computeScenarioResult area bm sels = Inr res"
  shows "map c_categoryId (categories res) = map cat_id VMX_CATEGORIES"
proof -
  from assms obtain rows where "interim area bm sels = Inr rows"
    "categories res = map (categoryResult (totalCost res)) rows"
    by (rule computeScenarioResult_Inr)
  then show ?thesis
    using interim_categoryIds [of area bm sels rows]
    by (simp add: categoryResult_def Let_def comp_def)
qed

subsection \<open>Overrides and missing bands\<close>

lemma mul_zero: "isFinite area \<Longrightarrow> mul area (Fin 0) = Fin 0"
  by (cases area) auto

lemma category_exists:
  assumes "computeScenarioResult area bm sels = Inr res"
  shows "\<exists>cr\<in>set (categories res). c_categoryId cr = c"
proof -
  from category_listed obtain cat where "cat \<in> set VMX_CATEGORIES" "cat_id cat = c" by blast
  then have "c \<in> set (map cat_id VMX_CATEGORIES)" by force
  with result_categoryIds [OF assms] have "c \<in> set (map c_categoryId (categories res))" by simp
  then show ?thesis by auto
qed

lemma missing_band_no_result:
  assumes area: "isFinite area" "gt area (Fin 0)"
    and sel: "selectionByCat sels c = Some sel"
    and gap: "\<not> (\<exists>b\<in>set (bands bm). categoryId b = c \<and> band b = s_band sel)"
  shows "\<exists>e. computeScenarioResult area bm sels = Inl e"
proof (cases "computeScenarioResult area bm sels")
  case (Inl e)
  then show ?thesis by blast
next
  case (Inr res)
  obtain cr where cr: "cr \<in> set (categories res)" "c_categoryId cr = c"
    using category_exists [OF Inr] by blast
  from Inr cr(1) obtain sel' base where "selectionByCat sels (c_categoryId cr) = Some sel'"
    "requireBand bm (c_categoryId cr) (s_band sel') = Inr base"
    by (rule category_result)
  with cr(2) sel have "requireBand bm c (s_band sel) = Inr base" by simp
  with gap show ?thesis by (auto dest: requireBand_Inr)
qed

lemma missing_band_error:
  assumes area: "isFinite area" "gt area (Fin 0)"
    and sel: "selectionByCat sels c = Some sel"
    and gap: "\<not> (\<exists>b\<in>set (bands bm). categoryId b = c \<and> band b = s_band sel)"
    and others: "\<And>c'. c' \<noteq> c \<Longrightarrow>
                   \<exists>s b. selectionByCat sels c' = Some s \<and> requireBand bm c' (s_band s) = Inr b"
  shows "computeScenarioResult area bm sels = Inl (MissingBand c (s_band sel))"
proof -
  let ?f = "interimRow area bm (selectionByCat sels) (ensureCompleteTargetRanges bm)"
  have "mapThrowing ?f VMX_CATEGORIES = Inl (MissingBand c (s_band sel))"
  proof (rule mapThrowing_only_error [where P = "\<lambda>cat::CategoryDef. cat_id cat = c"])
    show "\<exists>cat\<in>set VMX_CATEGORIES. cat_id cat = c" by (rule category_listed)
  next
    fix cat :: CategoryDef assume "cat_id cat = c"
    with sel gap show "?f cat = Inl (MissingBand c (s_band sel))"
      by (simp add: interimRow_Inl requireBand_Inl)
  next
    fix cat :: CategoryDef assume "cat_id cat \<noteq> c"
    from others [OF this] obtain s b where "selectionByCat sels (cat_id cat) = Some s"
      "requireBand bm (cat_id cat) (s_band s) = Inr b" by blast
    then show "\<exists>y. ?f cat = Inr y"
      by (simp add: interimRow_def Let_def)
  qed
  with area show ?thesis
    by (cases area) (auto simp: computeScenarioResult_def interim_def gt_def)
qed

subsection \<open>Evaluating the example runs\<close>

lemmas eval_inputs = interim_def VMX_CATEGORIES_def interimRow_def selectionByCat_def
  overriddenSelections_def mediumSelections_def requireBand_def demoBenchmark_def
  threeBands_def nullish_def Let_def gapBenchmark_def zeroBenchmark_def

lemma run_eval:
  assumes "interim (Fin a) bm sels = Inr rows" "0 < a" "\<not> le (sumNums (map i_cost rows)) (Fin 0)"
  shows "computeScenarioResult (Fin a) bm sels =
     Inr \<lparr>areaSqft = Fin a, currency = b_currency bm, totalCost = sumNums (map i_cost rows),
          totalPsqft = divide_num (sumNums (map i_cost rows)) (Fin a),
          categories = map (categoryResult (sumNums (map i_cost rows))) rows\<rparr>"
  using assms by (simp add: computeScenarioResult_def Let_def total_foldl sumNums_def)

lemma run_succeeds:
  assumes "interim (Fin a) bm sels = Inr rows" "0 < a" "\<not> le (sumNums (map i_cost rows)) (Fin 0)"
  shows "\<exists>res. computeScenarioResult (Fin a) bm sels = Inr res"
  using run_eval [OF assms] by blast

lemma zero_override_rows:
  "\<exists>rows. interim (Fin 10000) demoBenchmark (overriddenSelections (Fin 0)) = Inr rows
     \<and> map i_cost rows = [Fin 0, Fin 2560000, Fin 5200000, Fin 4600000, Fin 2600000, Fin 2800000, Fin 1800000]"
  by (simp add: eval_inputs)

lemma medium_rows:
  "\<exists>rows. interim (Fin 10000) demoBenchmark mediumSelections = Inr rows
     \<and> map i_cost rows = [Fin 510000, Fin 2560000, Fin 5200000, Fin 4600000, Fin 2600000, Fin 2800000, Fin 1800000]"
  by (simp add: eval_inputs)

lemma zero_override_run:
  "\<exists>res. computeScenarioResult (Fin 10000) demoBenchmark (overriddenSelections (Fin 0)) = Inr res"
proof -
  from zero_override_rows obtain rows where
    "interim (Fin 10000) demoBenchmark (overriddenSelections (Fin 0)) = Inr rows"
    "\<not> le (sumNums (map i_cost rows)) (Fin 0)"
    by (auto simp: sumNums_def)
  then show ?thesis by (intro run_succeeds) simp_all
qed

lemma medium_run:
  "\<exists>res. computeScenarioResult (Fin 10000) demoBenchmark mediumSelections = Inr res"
proof -
  from medium_rows obtain rows where
    "interim (Fin 10000) demoBenchmark mediumSelections = Inr rows"
    "\<not> le (sumNums (map i_cost rows)) (Fin 0)"
    by (auto simp: sumNums_def)
  then show ?thesis by (intro run_succeeds) simp_all
qed

lemma overridden_selection:
  "selectionByCat (overriddenSelections v) FACILITATING
     = Some \<lparr>s_categoryId = FACILITATING, s_band = MEDIUM, overridePsqft = Some v\<rparr>"
  by (simp add: selectionByCat_def overriddenSelections_def mediumSelections_def VMX_CATEGORIES_def)

lemma overridden_selection_others:
  "c \<noteq> FACILITATING \<Longrightarrow> selectionByCat (overriddenSelections v) c
     = Some \<lparr>s_categoryId = c, s_band = MEDIUM, overridePsqft = None\<rparr>"
  by (cases c)
    (simp_all add: selectionByCat_def overriddenSelections_def mediumSelections_def VMX_CATEGORIES_def)

lemma medium_selection:
  "selectionByCat mediumSelections c = Some \<lparr>s_categoryId = c, s_band = MEDIUM, overridePsqft = None\<rparr>"
  by (cases c) (simp_all add: selectionByCat_def mediumSelections_def VMX_CATEGORIES_def)

lemma gap_band_missing:
  "\<not> (\<exists>b\<in>set (bands gapBenchmark). categoryId b = FACILITATING \<and> band b = MEDIUM)"
  by (simp add: gapBenchmark_def)

lemma gap_band_others:
  "c \<noteq> FACILITATING \<Longrightarrow> \<exists>b. requireBand gapBenchmark c MEDIUM = Inr b"
  by (cases c) (simp_all add: requireBand_def gapBenchmark_def demoBenchmark_def threeBands_def)

lemma demo_facilitating_medium:
  "requireBand demoBenchmark FACILITATING MEDIUM
     = Inr \<lparr>categoryId = FACILITATING, band = MEDIUM, psqft = Fin 51\<rparr>"
  by (simp add: requireBand_def demoBenchmark_def threeBands_def)

text \<open>
  Claim C10. An override of exactly 0 is honoured: the category's \<open>psqftUsed\<close> and \<open>cost\<close>
  are 0, not the band's unit cost; any override that is present is used as it is, and only
  an absent one falls back to the band's unit cost. The selected (category, band) entry
  must exist in the benchmark also when an override is supplied: otherwise the run has no
  result, and the error is the missing-band error of that category when every other
  category passes its checks.
\<close>

theorem override_resolution:
  "(computeScenarioResult area bm sels = Inr res \<and> selectionByCat sels c = Some sel \<longrightarrow>
      (\<exists>cr\<in>set (categories res). c_categoryId cr = c)
      \<and> (\<forall>cr\<in>set (categories res). c_categoryId cr = c \<longrightarrow>
            (overridePsqft sel = Some (Fin 0) \<longrightarrow> psqftUsed cr = Fin 0 \<and> cost cr = Fin 0)
            \<and> (\<forall>v. overridePsqft sel = Some v \<longrightarrow> psqftUsed cr = v \<and> cost cr = mul area v)
            \<and> (overridePsqft sel = None \<longrightarrow>
                 (\<exists>base. requireBand bm c (s_band sel) = Inr base \<and> psqftUsed cr = psqft base))))
   \<and> (isFinite area \<and> gt area (Fin 0) \<and> selectionByCat sels c = Some sel
        \<and> \<not> (\<exists>b\<in>set (bands bm). categoryId b = c \<and> band b = s_band sel) \<longrightarrow>
      (\<exists>e. computeScenarioResult area bm sels = Inl e)
      \<and> ((\<forall>c'. c' \<noteq> c \<longrightarrow>
             (\<exists>s b. selectionByCat sels c' = Some s \<and> requireBand bm c' (s_band s) = Inr b)) \<longrightarrow>
           computeScenarioResult area bm sels = Inl (MissingBand c (s_band sel))))"
proof (intro conjI impI ballI allI)
  assume "computeScenarioResult area bm sels = Inr res \<and> selectionByCat sels c = Some sel"
  then show "\<exists>cr\<in>set (categories res). c_categoryId cr = c"
    using category_exists [of area bm sels res c] by blast
next
  fix cr
  assume run: "computeScenarioResult area bm sels = Inr res \<and> selectionByCat sels c = Some sel"
    and cr: "cr \<in> set (categories res)" "c_categoryId cr = c"
  from run cr(1) obtain a sel' base where r: "area = Fin a"
    "selectionByCat sels (c_categoryId cr) = Some sel'"
    "requireBand bm (c_categoryId cr) (s_band sel') = Inr base"
    "psqftUsed cr = nullish (overridePsqft sel') (psqft base)"
    "cost cr = mul area (psqftUsed cr)"
    by (blast elim: category_result)
  with run cr(2) have same: "sel' = sel" by simp
  {
    assume "overridePsqft sel = Some (Fin 0)"
    with r same show "psqftUsed cr = Fin 0" "cost cr = Fin 0"
      by (simp_all add: nullish_def)
  }
  {
    fix v assume "overridePsqft sel = Some v"
    with r same show "psqftUsed cr = v" "cost cr = mul area v"
      by (simp_all add: nullish_def)
  }
  {
    assume "overridePsqft sel = None"
    with r same cr(2) show "\<exists>base. requireBand bm c (s_band sel) = Inr base \<and> psqftUsed cr = psqft base"
      by (auto simp: nullish_def)
  }
next
  assume "isFinite area \<and> gt area (Fin 0) \<and> selectionByCat sels c = Some sel
        \<and> \<not> (\<exists>b\<in>set (bands bm). categoryId b = c \<and> band b = s_band sel)"
  then show "\<exists>e. computeScenarioResult area bm sels = Inl e"
    by (blast intro: missing_band_no_result)
next
  assume "isFinite area \<and> gt area (Fin 0) \<and> selectionByCat sels c = Some sel
        \<and> \<not> (\<exists>b\<in>set (bands bm). categoryId b = c \<and> band b = s_band sel)"
    and "\<forall>c'. c' \<noteq> c \<longrightarrow>
             (\<exists>s b. selectionByCat sels c' = Some s \<and> requireBand bm c' (s_band s) = Inr b)"
  then show "computeScenarioResult area bm sels = Inl (MissingBand c (s_band sel))"
    by (intro missing_band_error) auto
qed

theorem override_resolution_witness:
  "(\<exists>res. computeScenarioResult (Fin 10000) demoBenchmark (overriddenSelections (Fin 0)) = Inr res
      \<and> (\<exists>cr\<in>set (categories res).
            c_categoryId cr = FACILITATING \<and> psqftUsed cr = Fin 0 \<and> cost cr = Fin 0))
   \<and> (\<exists>res. computeScenarioResult (Fin 10000) demoBenchmark mediumSelections = Inr res
      \<and> (\<exists>cr\<in>set (categories res). c_categoryId cr = FACILITATING \<and> psqftUsed cr = Fin 51))
   \<and> computeScenarioResult (Fin 10000) gapBenchmark (overriddenSelections (Fin 0))
        = Inl (MissingBand FACILITATING MEDIUM)"
proof (intro conjI)
  from zero_override_run obtain res where
    run: "computeScenarioResult (Fin 10000) demoBenchmark (overriddenSelections (Fin 0)) = Inr res"
    by blast
  from override_resolution [of "Fin 10000" demoBenchmark "overriddenSelections (Fin 0)" res FACILITATING
      "\<lparr>s_categoryId = FACILITATING, s_band = MEDIUM, overridePsqft = Some (Fin 0)\<rparr>"]
    run overridden_selection [of "Fin 0"]
  have "\<exists>cr\<in>set (categories res).
            c_categoryId cr = FACILITATING \<and> psqftUsed cr = Fin 0 \<and> cost cr = Fin 0"
    by simp blast
  with run show "\<exists>res. computeScenarioResult (Fin 10000) demoBenchmark (overriddenSelections (Fin 0)) = Inr res
      \<and> (\<exists>cr\<in>set (categories res).
            c_categoryId cr = FACILITATING \<and> psqftUsed cr = Fin 0 \<and> cost cr = Fin 0)"
    by blast
next
  from medium_run obtain res where
    run: "computeScenarioResult (Fin 10000) demoBenchmark mediumSelections = Inr res"
    by blast
  from override_resolution [of "Fin 10000" demoBenchmark mediumSelections res FACILITATING
      "\<lparr>s_categoryId = FACILITATING, s_band = MEDIUM, overridePsqft = None\<rparr>"]
    run medium_selection [of FACILITATING] demo_facilitating_medium
  have "\<exists>cr\<in>set (categories res). c_categoryId cr = FACILITATING \<and> psqftUsed cr = Fin 51"
    by simp blast
  with run show "\<exists>res. computeScenarioResult (Fin 10000) demoBenchmark mediumSelections = Inr res
      \<and> (\<exists>cr\<in>set (categories res). c_categoryId cr = FACILITATING \<and> psqftUsed cr = Fin 51)"
    by blast
next
  have "\<forall>c'. c' \<noteq> FACILITATING \<longrightarrow>
     (\<exists>s b. selectionByCat (overriddenSelections (Fin 0)) c' = Some s
        \<and> requireBand gapBenchmark c' (s_band s) = Inr b)"
    using overridden_selection_others [of _ "Fin 0"] gap_band_others by fastforce
  with override_resolution [of "Fin 10000" gapBenchmark "overriddenSelections (Fin 0)" _ FACILITATING
      "\<lparr>s_categoryId = FACILITATING, s_band = MEDIUM, overridePsqft = Some (Fin 0)\<rparr>"]
    overridden_selection [of "Fin 0"] gap_band_missing
  show "computeScenarioResult (Fin 10000) gapBenchmark (overriddenSelections (Fin 0))
        = Inl (MissingBand FACILITATING MEDIUM)"
    by (simp add: gt_def)
qed

subsection \<open>Cost conservation\<close>

lemma foldl_add_Fin: "foldl add (Fin z) (map Fin xs) = Fin (z + sum_list xs)"
  by (induction xs arbitrary: z) (simp_all add: add.assoc)

lemma sumNums_Fin: "sumNums (map Fin xs) = Fin (sum_list xs)"
  by (simp add: sumNums_def foldl_add_Fin)



lemma categoryResult_fields [simp]:
  "cost (categoryResult t r) = i_cost r"
  "psqftUsed (categoryResult t r) = i_psqftUsed r"
  "c_categoryId (categoryResult t r) = i_categoryId r"
  "pctOfTotal (categoryResult t r) = divide_num (i_cost r) t"
  by (simp_all add: categoryResult_def Let_def)

lemma run_totals:
  assumes "interim (Fin a) bm sels = Inr rows" "0 < a" "\<not> le (sumNums (map i_cost rows)) (Fin 0)"
  shows "map_sum id totalCost (computeScenarioResult (Fin a) bm sels) = Inr (sumNums (map i_cost rows))"
    and "map_sum id costSum (computeScenarioResult (Fin a) bm sels) = Inr (sumNums (map i_cost rows))"
    and "map_sum id pctSum (computeScenarioResult (Fin a) bm sels)
      = Inr (sumNums (map (\<lambda>c. divide_num c (sumNums (map i_cost rows))) (map i_cost rows)))"
  by (simp_all add: run_eval [OF assms] costSum_def pctSum_def comp_def)






subsection \<open>Non-positive totals\<close>

lemma sum_zero_costs:
  "(\<And>r. r \<in> set rows \<Longrightarrow> i_cost r = Fin 0) \<Longrightarrow> sumNums (map i_cost rows) = Fin 0"
proof -
  assume "\<And>r. r \<in> set rows \<Longrightarrow> i_cost r = Fin 0"
  then have "map i_cost rows = map Fin (map (\<lambda>r. 0) rows)" by simp
  then have "sumNums (map i_cost rows) = Fin (sum_list (map (\<lambda>r. 0) rows))"
    by (simp only: sumNums_Fin)
  then show ?thesis by simp
qed

lemma degenerate_total_fails:
  assumes "isFinite area" "gt area (Fin 0)" "interim area bm sels = Inr rows"
    "le (sumNums (map i_cost rows)) (Fin 0)"
  shows "computeScenarioResult area bm sels = Inl NonPositiveTotal"
  using assms
  by (cases area) (auto simp: computeScenarioResult_def gt_def Let_def total_foldl sumNums_def)

lemma zero_benchmark_fails:
  assumes area: "isFinite area" "gt area (Fin 0)"
    and complete: "\<And>c. \<exists>s b. selectionByCat sels c = Some s \<and> overridePsqft s = None
                      \<and> requireBand bm c (s_band s) = Inr b"
    and zero: "\<And>b. b \<in> set (bands bm) \<Longrightarrow> psqft b = Fin 0"
  shows "computeScenarioResult area bm sels = Inl NonPositiveTotal"
proof -
  let ?f = "interimRow area bm (selectionByCat sels) (ensureCompleteTargetRanges bm)"
  have "\<exists>y. ?f cat = Inr y" for cat
    using complete [of "cat_id cat"] by (auto simp: interimRow_def Let_def)
  then obtain rows where rows: "interim area bm sels = Inr rows"
    unfolding interim_def using mapThrowing_total [of VMX_CATEGORIES ?f] by blast
  have "i_cost r = Fin 0" if "r \<in> set rows" for r
  proof -
    from rows that obtain cat where "?f cat = Inr r" by (rule interim_rows)
    then obtain sel base where sel: "selectionByCat sels (cat_id cat) = Some sel"
      and base: "requireBand bm (cat_id cat) (s_band sel) = Inr base"
      and used: "i_psqftUsed r = nullish (overridePsqft sel) (psqft base)"
      and cst: "i_cost r = mul area (i_psqftUsed r)"
      by (rule interimRow_Inr)
    from complete [of "cat_id cat"] sel have "overridePsqft sel = None" by auto
    moreover from base have "psqft base = Fin 0" by (auto dest: requireBand_Inr intro: zero)
    ultimately show ?thesis using area used cst by (simp add: nullish_def mul_zero)
  qed
  then have "sumNums (map i_cost rows) = Fin 0" by (rule sum_zero_costs)
  then have "le (sumNums (map i_cost rows)) (Fin 0)" by simp
  with area rows show ?thesis by (rule degenerate_total_fails)
qed

text \<open>
  Claim C5, amended. When the area, selection and band checks pass and the sum of the
  per-category costs is \<open>\<le> 0\<close>, \<^verbatim>\<open>computeScenarioResult\<close> fails with the non-positive-total
  error and has no result. In particular it fails with this error on a benchmark whose
  every band unit cost is 0, for a valid area and complete selections and bands, when no
  selection carries an override.
\<close>

theorem non_positive_total:
  "(isFinite area \<and> gt area (Fin 0) \<and> interim area bm sels = Inr rows
      \<and> le (sumNums (map i_cost rows)) (Fin 0) \<longrightarrow>
    computeScenarioResult area bm sels = Inl NonPositiveTotal)
   \<and> (isFinite area \<and> gt area (Fin 0)
      \<and> (\<forall>c. \<exists>s b. selectionByCat sels c = Some s \<and> overridePsqft s = None
                 \<and> requireBand bm c (s_band s) = Inr b)
      \<and> (\<forall>b\<in>set (bands bm). psqft b = Fin 0) \<longrightarrow>
    computeScenarioResult area bm sels = Inl NonPositiveTotal)"
  using degenerate_total_fails [of area bm sels rows] zero_benchmark_fails [of area sels bm]
  by blast

lemma zero_benchmark_bands: "map psqft (bands zeroBenchmark) = replicate 21 (Fin 0)"
  by (simp add: zeroBenchmark_def VMX_CATEGORIES_def threeBands_def eval_nat_numeral)

lemma zero_benchmark_medium: "\<exists>b. requireBand zeroBenchmark c MEDIUM = Inr b"
  by (cases c) (simp_all add: requireBand_def zeroBenchmark_def VMX_CATEGORIES_def threeBands_def)

lemma negative_override_rows:
  "\<exists>rows. interim (Fin 1) demoBenchmark (overriddenSelections (Fin (- 3000))) = Inr rows
     \<and> map i_cost rows = [Fin (- 3000), Fin 256, Fin 520, Fin 460, Fin 260, Fin 280, Fin 180]"
  by (simp add: eval_inputs)

lemma one_override_rows:
  "\<exists>rows. interim (Fin 1) zeroBenchmark (overriddenSelections (Fin 1)) = Inr rows
     \<and> map i_cost rows = [Fin 1, Fin 0, Fin 0, Fin 0, Fin 0, Fin 0, Fin 0]"
  by (simp add: eval_inputs)

theorem non_positive_total_witness:
  "(\<exists>rows. interim (Fin 1) demoBenchmark (overriddenSelections (Fin (- 3000))) = Inr rows
      \<and> le (sumNums (map i_cost rows)) (Fin 0))
   \<and> computeScenarioResult (Fin 1) demoBenchmark (overriddenSelections (Fin (- 3000)))
        = Inl NonPositiveTotal
   \<and> isFinite (Fin 1) \<and> gt (Fin 1) (Fin 0)
   \<and> (\<forall>c. selectionByCat mediumSelections c
          = Some \<lparr>s_categoryId = c, s_band = MEDIUM, overridePsqft = None\<rparr>)
   \<and> (\<forall>c. \<exists>b. requireBand zeroBenchmark c MEDIUM = Inr b)
   \<and> map psqft (bands zeroBenchmark) = replicate 21 (Fin 0)
   \<and> computeScenarioResult (Fin 1) zeroBenchmark mediumSelections = Inl NonPositiveTotal"
proof -
  from negative_override_rows obtain rows where
    rows: "interim (Fin 1) demoBenchmark (overriddenSelections (Fin (- 3000))) = Inr rows"
    and costs: "map i_cost rows = [Fin (- 3000), Fin 256, Fin 520, Fin 460, Fin 260, Fin 280, Fin 180]"
    by (elim exE conjE)
  have neg: "le (sumNums (map i_cost rows)) (Fin 0)"
    by (simp add: costs sumNums_def)
  with rows non_positive_total [of "Fin 1" demoBenchmark "overriddenSelections (Fin (- 3000))" rows]
  have first: "computeScenarioResult (Fin 1) demoBenchmark (overriddenSelections (Fin (- 3000)))
        = Inl NonPositiveTotal"
    by (simp add: gt_def)
  have zero: "\<forall>b\<in>set (bands zeroBenchmark). psqft b = Fin 0"
  proof
    fix b assume "b \<in> set (bands zeroBenchmark)"
    then have "psqft b \<in> set (map psqft (bands zeroBenchmark))" by simp
    then show "psqft b = Fin 0" by (simp only: zero_benchmark_bands set_replicate_conv_if) simp
  qed
  have complete: "\<forall>c. \<exists>s b. selectionByCat mediumSelections c = Some s \<and> overridePsqft s = None
                 \<and> requireBand zeroBenchmark c (s_band s) = Inr b"
    using medium_selection zero_benchmark_medium by fastforce
  with zero non_positive_total [of "Fin 1" zeroBenchmark mediumSelections]
  have second: "computeScenarioResult (Fin 1) zeroBenchmark mediumSelections = Inl NonPositiveTotal"
    by (simp add: gt_def)
  from rows neg first second show ?thesis
    using medium_selection zero_benchmark_medium zero_benchmark_bands
    by (auto simp: gt_def)
qed

text \<open>
  Claim C5 as stated lets the selections of the all-zero benchmark be any complete ones.
  With an override of 1 on one category the total is 1 and the run returns a result.
\<close>

theorem non_positive_total_counterexample:
  "isFinite (Fin 1) \<and> gt (Fin 1) (Fin 0)
   \<and> map psqft (bands zeroBenchmark) = replicate 21 (Fin 0)
   \<and> map_sum id totalCost (computeScenarioResult (Fin 1) zeroBenchmark (overriddenSelections (Fin 1)))
       = Inr (Fin 1)
   \<and> computeScenarioResult (Fin 1) zeroBenchmark (overriddenSelections (Fin 1)) \<noteq> Inl NonPositiveTotal"
proof -
  from one_override_rows obtain rows where
    rows: "interim (Fin 1) zeroBenchmark (overriddenSelections (Fin 1)) = Inr rows"
    and costs: "map i_cost rows = [Fin 1, Fin 0, Fin 0, Fin 0, Fin 0, Fin 0, Fin 0]"
    by (elim exE conjE)
  have s: "sumNums (map i_cost rows) = Fin 1"
    by (simp add: costs sumNums_def)
  then have "\<not> le (sumNums (map i_cost rows)) (Fin 0)" by simp
  note totals = run_totals(1) [OF rows zero_less_one this, unfolded s]
  then have "computeScenarioResult (Fin 1) zeroBenchmark (overriddenSelections (Fin 1)) \<noteq> Inl NonPositiveTotal"
    by auto
  with totals zero_benchmark_bands show ?thesis by (simp add: gt_def)
qed

subsection \<open>The representative unit cost\<close>

lemma usablePsqft_floored:
  "usablePsqft (bandEntry bm c bd) = map_option Fin (flooredCost bm c bd)"
  by (cases "bandEntry bm c bd"; cases "psqft (the (bandEntry bm c bd))")
    (auto simp: usablePsqft_def flooredCost_def)

lemma getMedium_representative:
  "getMediumPsqftOrFallback bm c = Fin (representativeCost bm c)"
proof -
  have "getMediumPsqftOrFallback bm c =
      (case usablePsqft (bandEntry bm c MEDIUM) of
         Some v \<Rightarrow> v
       | None \<Rightarrow>
          (case usablePsqft (bandEntry bm c LOW) of
             Some l \<Rightarrow> (case usablePsqft (bandEntry bm c HIGH) of
                          Some h \<Rightarrow> divide_num (add l h) (Fin 2) | None \<Rightarrow> l)
           | None \<Rightarrow> (case usablePsqft (bandEntry bm c HIGH) of Some h \<Rightarrow> h | None \<Rightarrow> Fin 0)))"
    by (simp add: getMediumPsqftOrFallback_def bandEntry_def Let_def split: option.splits)
  then show ?thesis
    by (simp add: usablePsqft_floored representativeCost_def split: option.splits)
qed

lemma flooredCost_nonneg: "flooredCost bm c bd = Some a \<Longrightarrow> 0 \<le> a"
  by (auto simp: flooredCost_def split: option.splits num.splits)

lemma representativeCost_nonneg: "0 \<le> representativeCost bm c"
  using flooredCost_nonneg [of bm c MEDIUM] flooredCost_nonneg [of bm c LOW]
    flooredCost_nonneg [of bm c HIGH]
  by (auto simp: representativeCost_def split: option.splits)





subsection \<open>Implied Medium shares\<close>

lemma shares_char:
  "computeImpliedMediumAllocationShares bm c =
     (let sm = sum_list (map (\<lambda>cat. representativeCost bm (cat_id cat)) VMX_CATEGORIES)
      in if sm \<le> 0 then Some (Fin (1 / 7)) else Some (Fin (representativeCost bm c / sm)))"
  by (cases c)
    (simp_all add: computeImpliedMediumAllocationShares_def VMX_CATEGORIES_def
      getMedium_representative getProp_def Let_def add.assoc)

lemma representative_sum_nonneg:
  "0 \<le> sum_list (map (\<lambda>cat. representativeCost bm (cat_id cat)) VMX_CATEGORIES)"
  by (rule sum_list_nonneg) (auto simp: representativeCost_nonneg)





lemma flooredCost_nonpositive:
  assumes "\<forall>b\<in>set (bands bm). le (psqft b) (Fin 0)"
  shows "flooredCost bm c bd = None \<or> flooredCost bm c bd = Some 0"
proof (cases "bandEntry bm c bd")
  case None
  then show ?thesis by (simp add: flooredCost_def)
next
  case (Some b)
  then have "b \<in> set (bands bm)" by (auto simp: bandEntry_def find_Some_iff)
  with assms have "le (psqft b) (Fin 0)" by blast
  with Some show ?thesis by (cases "psqft b") (auto simp: flooredCost_def)
qed

lemma representativeCost_nonpositive:
  assumes "\<forall>b\<in>set (bands bm). le (psqft b) (Fin 0)"
  shows "representativeCost bm c = 0"
  using flooredCost_nonpositive [OF assms, of c MEDIUM] flooredCost_nonpositive [OF assms, of c LOW]
    flooredCost_nonpositive [OF assms, of c HIGH]
  by (auto simp: representativeCost_def)

text \<open>
  Claim C8. If every unit cost of a benchmark, in every category and band, is zero or
  negative, every category's implied share is \<open>1 / 7\<close>, which is 1 divided by the number
  of categories.
\<close>

theorem equal_weight_fallback:
  assumes "\<forall>b\<in>set (bands bm). le (psqft b) (Fin 0)"
  shows "computeImpliedMediumAllocationShares bm c = Some (Fin (1 / 7))
    \<and> computeImpliedMediumAllocationShares bm c
        = Some (divide_num (Fin 1) (Fin (real (length VMX_CATEGORIES))))"
proof -
  from assms have "representativeCost bm c' = 0" for c'
    by (rule representativeCost_nonpositive)
  then show ?thesis by (simp add: shares_char VMX_CATEGORIES_def)
qed

theorem equal_weight_fallback_witness:
  "list_all (\<lambda>b. le (psqft b) (Fin 0)) (bands negativeMediumBenchmark)
   \<and> computeImpliedMediumAllocationShares negativeMediumBenchmark FACILITATING = Some (Fin (1 / 7))
   \<and> list_all (\<lambda>b. le (psqft b) (Fin 0)) (bands zeroBenchmark)
   \<and> computeImpliedMediumAllocationShares zeroBenchmark EXTERNAL_WORKS = Some (Fin (1 / 7))"
proof -
  have n: "\<forall>b\<in>set (bands negativeMediumBenchmark). le (psqft b) (Fin 0)"
    by (simp add: negativeMediumBenchmark_def)
  have z: "\<forall>b\<in>set (bands zeroBenchmark). le (psqft b) (Fin 0)"
    by (simp add: zeroBenchmark_def VMX_CATEGORIES_def threeBands_def)
  from equal_weight_fallback [OF n, of FACILITATING] equal_weight_fallback [OF z, of EXTERNAL_WORKS]
    n z
  show ?thesis by (simp add: list_all_iff)
qed

subsection \<open>Complete target ranges\<close>

lemma ensureMinMax_valid:
  "validRange \<lparr>r_categoryId = k, minPct = fst (ensureMinMax x y), maxPct = snd (ensureMinMax x y)\<rparr>"
proof -
  obtain a b where "ensureMinMax x y = (Fin a, Fin b)" "0 \<le> a" "a \<le> b" "b \<le> 1"
    by (rule ensureMinMax_result)
  then show ?thesis by (simp add: validRange_def)
qed

lemma setExisting_keeps:
  assumes "\<And>k r. byCat k = Some r \<Longrightarrow> r_categoryId r = k \<and> validRange r"
    and "setExisting byCat r0 k = Some r"
  shows "r_categoryId r = k \<and> validRange r"
  using assms ensureMinMax_valid
  by (auto simp: setExisting_def Let_def split: option.splits if_splits)

lemma foldl_setExisting_keeps:
  assumes "\<And>k r. byCat k = Some r \<Longrightarrow> r_categoryId r = k \<and> validRange r"
    and "foldl setExisting byCat rs k = Some r"
  shows "r_categoryId r = k \<and> validRange r"
  using assms
proof (induction rs arbitrary: byCat)
  case Nil
  then show ?case by simp
next
  case (Cons r0 rs)
  show ?case
  proof (rule Cons.IH)
    fix k' r' assume "setExisting byCat r0 k' = Some r'"
    with Cons.prems(1) show "r_categoryId r' = k' \<and> validRange r'"
      by (rule setExisting_keeps)
  next
    from Cons.prems(2) show "foldl setExisting (setExisting byCat r0) rs k = Some r" by simp
  qed
qed

lemma derived_valid:
  "d \<in> set (deriveTargetRangesFromMedium bm opts) \<Longrightarrow> validRange d"
  by (auto simp: deriveTargetRangesFromMedium_def Let_def ensureMinMax_valid)

lemma final_range:
  fixes byCat :: "RawId \<rightharpoonup> TargetRange" and derived :: "TargetRange list"
    and c :: VmxCategoryId
  assumes "\<And>k r. byCat k = Some r \<Longrightarrow> r_categoryId r = k \<and> validRange r"
    and "\<And>d. d \<in> set derived \<Longrightarrow> validRange d"
  defines "final \<equiv> (case byCat (Known c) of
                  Some existingRange \<Rightarrow> existingRange
                | None \<Rightarrow>
                   (case find (\<lambda>x. r_categoryId x = Known c) derived of
                      Some d \<Rightarrow> d
                    | None \<Rightarrow> \<lparr>r_categoryId = Known c, minPct = Fin 0, maxPct = Fin 1\<rparr>))"
  shows "r_categoryId final = Known c \<and> validRange final"
proof (cases "byCat (Known c)")
  case (Some r)
  with assms(1) show ?thesis by (simp add: final_def)
next
  case None
  show ?thesis
  proof (cases "find (\<lambda>x. r_categoryId x = Known c) derived")
    case None
    with \<open>byCat (Known c) = None\<close> show ?thesis by (simp add: final_def validRange_def)
  next
    case (Some d)
    then have "d \<in> set derived" "r_categoryId d = Known c"
      by (auto simp: find_Some_iff)
    with assms(2) Some \<open>byCat (Known c) = None\<close> show ?thesis by (simp add: final_def)
  qed
qed

lemma existing_range_kept:
  assumes "foldl setExisting Map.empty (case targetRanges bm of Some rs \<Rightarrow> rs | None \<Rightarrow> [])
             (Known c) = Some r"
  shows "r \<in> set (ensureCompleteTargetRanges bm)"
proof -
  obtain cat where "cat \<in> set VMX_CATEGORIES" "cat_id cat = c"
    using category_listed by blast
  with assms show ?thesis
    by (force simp: ensureCompleteTargetRanges_def Let_def image_iff)
qed

lemmas eval_existing = setExisting_def ensureMinMax_def safePct_cases malformedBenchmark_def Let_def

text \<open>
  Claim C2. For every benchmark, also one whose \<open>targetRanges\<close> is not an array, is empty
  or holds malformed entries, \<^verbatim>\<open>ensureCompleteTargetRanges\<close> returns exactly one range per
  category, in the order of \<^verbatim>\<open>VMX_CATEGORIES\<close>, each with \<open>0 \<le> minPct \<le> maxPct \<le> 1\<close>.
\<close>

theorem complete_target_ranges:
  "map r_categoryId (ensureCompleteTargetRanges bm)
     = [Known FACILITATING, Known SUBSTRUCTURE, Known SUPERSTRUCTURE, Known INTERNAL_FINISHES,
        Known FF_E, Known SERVICES, Known EXTERNAL_WORKS]
   \<and> map r_categoryId (ensureCompleteTargetRanges bm) = map (\<lambda>cat. Known (cat_id cat)) VMX_CATEGORIES
   \<and> list_all validRange (ensureCompleteTargetRanges bm)"
proof -
  let ?existing = "case targetRanges bm of Some rs \<Rightarrow> rs | None \<Rightarrow> []"
  let ?byCat = "foldl setExisting Map.empty ?existing"
  let ?derived = "deriveTargetRangesFromMedium bm None"
  let ?g = "\<lambda>cat::CategoryDef. case ?byCat (Known (cat_id cat)) of
                  Some existingRange \<Rightarrow> existingRange
                | None \<Rightarrow>
                   (case find (\<lambda>x. r_categoryId x = Known (cat_id cat)) ?derived of
                      Some d \<Rightarrow> d
                    | None \<Rightarrow> \<lparr>r_categoryId = Known (cat_id cat), minPct = Fin 0, maxPct = Fin 1\<rparr>)"
  have eq: "ensureCompleteTargetRanges bm = map ?g VMX_CATEGORIES"
    by (simp add: ensureCompleteTargetRanges_def Let_def)
  have inv: "r_categoryId r = k \<and> validRange r" if "?byCat k = Some r" for k r
    using _ that by (rule foldl_setExisting_keeps) simp
  have g: "r_categoryId (?g cat) = Known (cat_id cat) \<and> validRange (?g cat)" for cat
    by (rule final_range) (use inv derived_valid in blast)+
  have ids: "map r_categoryId (ensureCompleteTargetRanges bm) = map (\<lambda>cat. Known (cat_id cat)) VMX_CATEGORIES"
    unfolding eq map_map by (rule map_cong) (simp_all add: g)
  moreover have "list_all validRange (ensureCompleteTargetRanges bm)"
    unfolding eq list_all_iff using g by auto
  moreover have "map (\<lambda>cat. Known (cat_id cat)) VMX_CATEGORIES
     = [Known FACILITATING, Known SUBSTRUCTURE, Known SUPERSTRUCTURE, Known INTERNAL_FINISHES,
        Known FF_E, Known SERVICES, Known EXTERNAL_WORKS]"
    by (simp add: VMX_CATEGORIES_def)
  ultimately show ?thesis by simp
qed


theorem complete_target_ranges_witness:
  "map r_categoryId (ensureCompleteTargetRanges malformedBenchmark)
     = [Known FACILITATING, Known SUBSTRUCTURE, Known SUPERSTRUCTURE, Known INTERNAL_FINISHES,
        Known FF_E, Known SERVICES, Known EXTERNAL_WORKS]
   \<and> list_all validRange (ensureCompleteTargetRanges malformedBenchmark)
   \<and> \<lparr>r_categoryId = Known SERVICES, minPct = Fin (9 / 10), maxPct = Fin (9 / 10)\<rparr>
        \<in> set (ensureCompleteTargetRanges malformedBenchmark)
   \<and> \<lparr>r_categoryId = Known FF_E, minPct = Fin 0, maxPct = Fin 1\<rparr>
        \<in> set (ensureCompleteTargetRanges malformedBenchmark)
   \<and> \<lparr>r_categoryId = Known SUBSTRUCTURE, minPct = Fin 0, maxPct = Fin 0\<rparr>
        \<in> set (ensureCompleteTargetRanges malformedBenchmark)
   \<and> \<lparr>r_categoryId = Known SUPERSTRUCTURE, minPct = Fin (3 / 10), maxPct = Fin (4 / 10)\<rparr>
        \<in> set (ensureCompleteTargetRanges malformedBenchmark)
   \<and> targetRanges zeroBenchmark = None
   \<and> map r_categoryId (ensureCompleteTargetRanges zeroBenchmark)
     = [Known FACILITATING, Known SUBSTRUCTURE, Known SUPERSTRUCTURE, Known INTERNAL_FINISHES,
        Known FF_E, Known SERVICES, Known EXTERNAL_WORKS]
   \<and> list_all validRange (ensureCompleteTargetRanges zeroBenchmark)"
proof -
  have "\<lparr>r_categoryId = Known SERVICES, minPct = Fin (9 / 10), maxPct = Fin (9 / 10)\<rparr>
        \<in> set (ensureCompleteTargetRanges malformedBenchmark)"
    by (rule existing_range_kept [where c = SERVICES]) (simp add: eval_existing)
  moreover have "\<lparr>r_categoryId = Known FF_E, minPct = Fin 0, maxPct = Fin 1\<rparr>
        \<in> set (ensureCompleteTargetRanges malformedBenchmark)"
    by (rule existing_range_kept [where c = FF_E]) (simp add: eval_existing)
  moreover have "\<lparr>r_categoryId = Known SUBSTRUCTURE, minPct = Fin 0, maxPct = Fin 0\<rparr>
        \<in> set (ensureCompleteTargetRanges malformedBenchmark)"
    by (rule existing_range_kept [where c = SUBSTRUCTURE]) (simp add: eval_existing)
  moreover have "\<lparr>r_categoryId = Known SUPERSTRUCTURE, minPct = Fin (3 / 10), maxPct = Fin (4 / 10)\<rparr>
        \<in> set (ensureCompleteTargetRanges malformedBenchmark)"
    by (rule existing_range_kept [where c = SUPERSTRUCTURE]) (simp add: eval_existing)
  moreover have "targetRanges zeroBenchmark = None"
    by (simp add: zeroBenchmark_def)
  ultimately show ?thesis
    using complete_target_ranges [of malformedBenchmark] complete_target_ranges [of zeroBenchmark]
    by simp
qed

end
